theory Spec2Isabelle
  imports Main "HOL-Library.Multiset"
begin

section \<open>The peer-to-peer transport of \<^verbatim>\<open>src/client/transport/p2p.ts\<close>\<close>

subsection \<open>Values, clients and actions\<close>

text \<open>
  The values that travel as positional arguments of an action. Strings, numbers, booleans,
  \<^verbatim>\<open>null\<close> and \<^verbatim>\<open>undefined\<close> are written out; every other object (a game,
  a move, a chat message, a pushed payload) is opaque and of type \<open>'a\<close>.
\<close>

datatype 'a js = JStr string | JNum int | JBool bool | JNull | JUndefined | JObj 'a

type_synonym PlayerID = string

text \<open>
  A client is an object, and the host's \<^verbatim>\<open>Map<Client, Client>\<close> compares its keys by
  object identity. The identity of the object is the field \<open>ident\<close>: a connection object
  handed over by the peer library, or the loopback client that \<^verbatim>\<open>connect\<close> creates for
  the host with a given number.
\<close>

datatype ident = Connection nat | LocalClient nat

text \<open>
  The only exception the file can see is one thrown by the \<^verbatim>\<open>send\<close> of a client; it is
  tagged with the identity of the client whose \<^verbatim>\<open>send\<close> threw.
\<close>

datatype error = SendError ident

text \<open>
  \<^verbatim>\<open>interface Client { send: Peer.DataConnection['send']; metadata: { playerID: PlayerID } }\<close>.
  The \<^verbatim>\<open>send\<close> capability is a function of the library: called with a payload it either
  returns (\<open>None\<close>), and the payload is then on its way to that client, or throws.
\<close>

record 'a Client =
  ident :: ident
  send :: "'a \<Rightarrow> error option"
  metadata_playerID :: PlayerID

text \<open>
  \<^verbatim>\<open>type ClientAction = { type: 'update' | 'chat' | 'sync'; args: ... }\<close>. An action also
  arrives from the network (\<^verbatim>\<open>client.on('data', ...)\<close>), where nothing checks its tag, so
  the tag is a string.
\<close>

record 'a ClientAction =
  type :: string
  args :: "'a js list"

text \<open>
  The \<^verbatim>\<open>Master\<close> is an external collaborator. The model keeps what it was constructed
  with (the game, and the matches created in its database with their number of players) and
  the calls made to its entry points, in order, each with its argument list.
\<close>

datatype 'a master_call =
    OnUpdate "'a js list"
  | OnChatMessage "'a js list"
  | OnSync "'a js list"
  | OnConnectionChange "'a js list"

record 'a Master =
  master_game :: 'a
  db :: "(string \<times> int) list"
  calls :: "'a master_call list"

subsection \<open>The insertion-ordered map of clients\<close>

text \<open>
  A JavaScript \<^verbatim>\<open>Map\<close> keeps its entries in insertion order. \<^verbatim>\<open>set\<close> on a key that is
  present replaces the value and keeps the entry's position, on a new key it appends;
  \<^verbatim>\<open>delete\<close> removes the entry of the key, if any.
\<close>

type_synonym 'a client_map = "('a Client \<times> 'a Client) list"

fun map_set :: "'a Client \<Rightarrow> 'a Client \<Rightarrow> 'a client_map \<Rightarrow> 'a client_map" where
  "map_set k v [] = [(k, v)]"
| "map_set k v ((k', v') # m) =
     (if ident k' = ident k then (k', v) # m else (k', v') # map_set k v m)"

definition map_delete :: "'a Client \<Rightarrow> 'a client_map \<Rightarrow> 'a client_map" where
  "map_delete k m = filter (\<lambda>(k', v'). ident k' \<noteq> ident k) m"

definition map_keys :: "'a client_map \<Rightarrow> 'a Client list" where
  "map_keys m = map fst m"

definition map_has :: "'a Client \<Rightarrow> 'a client_map \<Rightarrow> bool" where
  "map_has k m = (ident k \<in> set (map ident (map_keys m)))"

text \<open>The keys of a \<^verbatim>\<open>Map\<close> are pairwise different objects.\<close>

definition map_ok :: "'a client_map \<Rightarrow> bool" where
  "map_ok m = distinct (map ident (map_keys m))"

subsection \<open>P2PHost\<close>

record 'a P2PHost =
  clients :: "'a client_map"
  matchID :: string
  master :: "'a Master"

text \<open>
  The constructor: \<^verbatim>\<open>numPlayers = 2\<close> is the default of the destructured parameter, the
  match is created in a fresh in-memory database, and the set of clients starts empty.
\<close>

definition new_P2PHost :: "'a \<Rightarrow> int option \<Rightarrow> string \<Rightarrow> 'a P2PHost" where
  "new_P2PHost g numPlayers mid =
     (let n = (case numPlayers of None \<Rightarrow> 2 | Some k \<Rightarrow> k)
      in \<lparr>clients = [], matchID = mid,
          master = \<lparr>master_game = g, db = [(mid, n)], calls = []\<rparr>\<rparr>)"

text \<open>
  What the clients have been sent: the completed calls of \<^verbatim>\<open>client.send(data)\<close>, in
  order, each with the identity of the client. A call that throws adds nothing.
\<close>

type_synonym 'a wire = "(ident \<times> 'a) list"

definition client_send :: "'a Client \<Rightarrow> 'a \<Rightarrow> 'a wire \<Rightarrow> (error \<times> 'a wire) + 'a wire" where
  "client_send client data w =
     (case send client data of
        Some e \<Rightarrow> Inl (e, w)
      | None \<Rightarrow> Inr (w @ [(ident client, data)]))"

text \<open>
  The two callbacks handed to the \<^verbatim>\<open>Master\<close>. Each is a \<^verbatim>\<open>for\<close> loop over the keys of
  \<^verbatim>\<open>this.clients\<close> with no \<^verbatim>\<open>try\<close>: an exception of \<^verbatim>\<open>client.send\<close> leaves the loop
  and the callback (\<open>Inl\<close>, with what had been sent until then).
\<close>

fun send_loop :: "PlayerID \<Rightarrow> 'a \<Rightarrow> 'a Client list \<Rightarrow> 'a wire \<Rightarrow> (error \<times> 'a wire) + 'a wire" where
  "send_loop playerID data [] w = Inr w"
| "send_loop playerID data (client # rest) w =
     (if metadata_playerID client \<noteq> playerID then send_loop playerID data rest w
      else (case client_send client data w of
              Inl e \<Rightarrow> Inl e
            | Inr w' \<Rightarrow> send_loop playerID data rest w'))"

fun sendAll_loop :: "'a \<Rightarrow> 'a Client list \<Rightarrow> 'a wire \<Rightarrow> (error \<times> 'a wire) + 'a wire" where
  "sendAll_loop data [] w = Inr w"
| "sendAll_loop data (client # rest) w =
     (case client_send client data w of
        Inl e \<Rightarrow> Inl e
      | Inr w' \<Rightarrow> sendAll_loop data rest w')"

definition master_send :: "'a P2PHost \<Rightarrow> PlayerID \<Rightarrow> 'a \<Rightarrow> 'a wire \<Rightarrow> (error \<times> 'a wire) + 'a wire" where
  "master_send h playerID data w = send_loop playerID data (map_keys (clients h)) w"

definition master_sendAll :: "'a P2PHost \<Rightarrow> 'a \<Rightarrow> 'a wire \<Rightarrow> (error \<times> 'a wire) + 'a wire" where
  "master_sendAll h data w = sendAll_loop data (map_keys (clients h)) w"

definition call_master :: "'a master_call \<Rightarrow> 'a P2PHost \<Rightarrow> 'a P2PHost" where
  "call_master c h = h\<lparr>master := (master h)\<lparr>calls := calls (master h) @ [c]\<rparr>\<rparr>"

definition registerClient :: "'a Client \<Rightarrow> 'a P2PHost \<Rightarrow> 'a P2PHost" where
  "registerClient client h =
     call_master
       (OnConnectionChange [JStr (matchID h), JStr (metadata_playerID client), JUndefined, JBool True])
       (h\<lparr>clients := map_set client client (clients h)\<rparr>)"

definition unregisterClient :: "'a Client \<Rightarrow> 'a P2PHost \<Rightarrow> 'a P2PHost" where
  "unregisterClient client h =
     call_master
       (OnConnectionChange [JStr (matchID h), JStr (metadata_playerID client), JUndefined, JBool False])
       (h\<lparr>clients := map_delete client (clients h)\<rparr>)"

text \<open>The \<^verbatim>\<open>switch\<close> on \<^verbatim>\<open>data.type\<close> has three cases and no default.\<close>

definition processAction :: "'a ClientAction \<Rightarrow> 'a P2PHost \<Rightarrow> 'a P2PHost" where
  "processAction data h =
     (if type data = ''update'' then call_master (OnUpdate (args data)) h
      else if type data = ''chat'' then call_master (OnChatMessage (args data)) h
      else if type data = ''sync'' then call_master (OnSync (args data)) h
      else h)"

subsection \<open>The objects of the peer library\<close>

text \<open>
  A \<^verbatim>\<open>Peer\<close> is created with an optional identifier and the options; \<^verbatim>\<open>connect\<close>
  registers one handler on it. A handler is a closure, kept here as the values it captured:
  the \<^verbatim>\<open>'connection'\<close> handler of a host captures the \<^verbatim>\<open>P2PHost\<close> (its position among
  the hosts created so far), the \<^verbatim>\<open>'open'\<close> handler of a client captures \<^verbatim>\<open>hostID\<close>
  and \<^verbatim>\<open>metadata\<close>. A destroyed peer raises no event.
\<close>

record 'a Peer =
  peer_id :: "string option"
  options :: "'a option"
  destroyed :: bool
  on_connection :: "nat option"
  on_open :: "(string option \<times> PlayerID) option"

definition new_Peer :: "string option \<Rightarrow> 'a option \<Rightarrow> 'a Peer" where
  "new_Peer i opts =
     \<lparr>peer_id = i, options = opts, destroyed = False, on_connection = None, on_open = None\<rparr>"

text \<open>
  The connection a client dials with \<^verbatim>\<open>this.peer.connect(hostID, { metadata })\<close>: the
  peer that dialled, the identifier dialled, the metadata, whether its \<^verbatim>\<open>'open'\<close> event
  has come (the dial has succeeded), and the actions handed to its \<^verbatim>\<open>send\<close>.
\<close>

record 'a DataConnection =
  conn_peer :: nat
  dial_id :: "string option"
  conn_metadata :: PlayerID
  is_open :: bool
  outbox :: "'a ClientAction list"

text \<open>
  \<^verbatim>\<open>this.emit\<close> is one of two closures: \<^verbatim>\<open>(action) => void host.processAction(action)\<close>
  on a host, \<^verbatim>\<open>(action) => void host.send(action)\<close> on a client, where \<^verbatim>\<open>host\<close> is
  then the dialled connection.
\<close>

datatype emit_path = ProcessAction nat | HostSend nat

record 'a State =
  stateID :: int
  G :: 'a

subsection \<open>P2PTransport\<close>

text \<open>
  The fields of the class and of its base class \<^verbatim>\<open>Transport\<close>, and the objects the
  transport has created, which its closures keep alive: peers, hosts, dialled connections,
  and on a host the accepted connections with the host their \<^verbatim>\<open>'data'\<close> and
  \<^verbatim>\<open>'close'\<close> handlers are bound to. \<open>peer = None\<close> is \<^verbatim>\<open>null\<close> or \<^verbatim>\<open>undefined\<close>,
  \<open>emit = None\<close> is \<^verbatim>\<open>undefined\<close>.
\<close>

record 'a P2PTransport =
  gameName :: string
  playerID :: PlayerID
  matchID :: string
  credentials :: "string option"
  numPlayers :: int
  isConnected :: bool
  received :: "'a list"
  peer :: "nat option"
  peerJSOptions :: "'a option"
  isHost :: bool
  game :: 'a
  emit :: "emit_path option"
  peers :: "'a Peer list"
  hosts :: "'a P2PHost list"
  conns :: "'a DataConnection list"
  accepted :: "('a Client \<times> nat) list"

text \<open>
  The constructor: \<^verbatim>\<open>Boolean(isHost)\<close> of a missing flag is false, \<^verbatim>\<open>peerJSOptions\<close>
  defaults to the empty options (\<open>None\<close>), and the remaining options go to the base class.
\<close>

definition new_P2PTransport ::
  "bool option \<Rightarrow> 'a option \<Rightarrow> 'a \<Rightarrow> string \<Rightarrow> PlayerID \<Rightarrow> string \<Rightarrow> string option \<Rightarrow> int
     \<Rightarrow> 'a P2PTransport" where
  "new_P2PTransport is_host opts g gname pid mid creds n =
     \<lparr>gameName = gname, playerID = pid, matchID = mid, credentials = creds, numPlayers = n,
      isConnected = False, received = [], peer = None, peerJSOptions = opts,
      isHost = (case is_host of None \<Rightarrow> False | Some b \<Rightarrow> b), game = g, emit = None,
      peers = [], hosts = [], conns = [], accepted = []\<rparr>"

text \<open>
  Modelled from the spec: \<^verbatim>\<open>setConnectionStatus\<close> and \<^verbatim>\<open>clientCallback\<close> belong to the
  base class \<^verbatim>\<open>Transport\<close>, whose file is not part of the sources. The first stores the
  connection status of the transport, the second applies a pushed payload to the local
  application state, kept here as the list of payloads applied.
\<close>

definition setConnectionStatus :: "bool \<Rightarrow> 'a P2PTransport \<Rightarrow> 'a P2PTransport" where
  "setConnectionStatus b t = t\<lparr>isConnected := b\<rparr>"

definition clientCallback :: "'a \<Rightarrow> 'a P2PTransport \<Rightarrow> 'a P2PTransport" where
  "clientCallback data t = t\<lparr>received := received t @ [data]\<rparr>"

text \<open>An empty string is falsy: the match identifier then gives \<^verbatim>\<open>undefined\<close>.\<close>

definition namespacedPeerID :: "'a P2PTransport \<Rightarrow> string option" where
  "namespacedPeerID t =
     (if P2PTransport.matchID t \<noteq> ''''
      then Some (''boardgameio-'' @ gameName t @ ''-matchid-'' @ P2PTransport.matchID t)
      else None)"

definition js_of_credentials :: "string option \<Rightarrow> 'a js" where
  "js_of_credentials c = (case c of None \<Rightarrow> JUndefined | Some s \<Rightarrow> JStr s)"

text \<open>
  Calling \<^verbatim>\<open>this.emit(action)\<close>, for each of the two closures. A closure holds the
  object itself, so its position always names an object that exists; for a position that
  names none the state is left as it is.
\<close>

fun emit_call :: "emit_path \<Rightarrow> 'a ClientAction \<Rightarrow> 'a P2PTransport \<Rightarrow> 'a P2PTransport" where
  "emit_call (ProcessAction h) action t =
     (if h < length (hosts t)
      then t\<lparr>hosts := (hosts t)[h := processAction action (hosts t ! h)]\<rparr>
      else t)"
| "emit_call (HostSend c) action t =
     (if c < length (conns t)
      then t\<lparr>conns := (conns t)[c := (conns t ! c)\<lparr>outbox := outbox (conns t ! c) @ [action]\<rparr>]\<rparr>
      else t)"

definition requestSync :: "'a P2PTransport \<Rightarrow> 'a P2PTransport" where
  "requestSync t =
     (case emit t of
        None \<Rightarrow> t
      | Some e \<Rightarrow>
          emit_call e
            \<lparr>type = ''sync'',
             args = [JStr (P2PTransport.matchID t), JStr (playerID t),
                     js_of_credentials (credentials t), JNum (numPlayers t)]\<rparr> t)"

definition sendAction :: "'a State \<Rightarrow> 'a \<Rightarrow> 'a P2PTransport \<Rightarrow> 'a P2PTransport" where
  "sendAction state action t =
     (case emit t of
        None \<Rightarrow> t
      | Some e \<Rightarrow>
          emit_call e
            \<lparr>type = ''update'',
             args = [JObj action, JNum (stateID state), JStr (P2PTransport.matchID t),
                     JStr (playerID t)]\<rparr> t)"

definition sendChatMessage :: "string \<Rightarrow> 'a \<Rightarrow> 'a P2PTransport \<Rightarrow> 'a P2PTransport" where
  "sendChatMessage mid chatMessage t =
     (case emit t of
        None \<Rightarrow> t
      | Some e \<Rightarrow>
          emit_call e
            \<lparr>type = ''chat'',
             args = [JStr mid, JObj chatMessage, js_of_credentials (credentials t)]\<rparr> t)"

text \<open>
  \<^verbatim>\<open>connect\<close>. The new peer is the next object among the peers, and on a host the new
  \<^verbatim>\<open>P2PHost\<close> the next among the hosts; the loopback client of host \<open>h\<close> is the object
  \<open>LocalClient h\<close>, whose \<^verbatim>\<open>send\<close> is \<^verbatim>\<open>clientCallback\<close> and returns. The last statement
  sets the connection status for both roles.
\<close>

definition connect :: "'a P2PTransport \<Rightarrow> 'a P2PTransport" where
  "connect t =
     (let hostID = namespacedPeerID t;
          metadata = playerID t;
          p = length (peers t);
          t1 = t\<lparr>peers := peers t @ [new_Peer (if isHost t then hostID else None) (peerJSOptions t)],
                 peer := Some p\<rparr>
      in setConnectionStatus True
           (if isHost t1 then
              (let h = length (hosts t1);
                   host = new_P2PHost (game t1) (Some (numPlayers t1)) (P2PTransport.matchID t1);
                   t2 = t1\<lparr>hosts := hosts t1 @ [host], emit := Some (ProcessAction h)\<rparr>;
                   t3 = t2\<lparr>hosts := (hosts t2)
                           [h := registerClient
                                   \<lparr>ident = LocalClient h, send = (\<lambda>data. None),
                                    metadata_playerID = metadata\<rparr> (hosts t2 ! h)]\<rparr>;
                   t4 = t3\<lparr>peers := (peers t3)[p := (peers t3 ! p)\<lparr>on_connection := Some h\<rparr>]\<rparr>
               in requestSync t4)
            else t1\<lparr>peers := (peers t1)[p := (peers t1 ! p)\<lparr>on_open := Some (hostID, metadata)\<rparr>]\<rparr>))"

definition disconnect :: "'a P2PTransport \<Rightarrow> 'a P2PTransport" where
  "disconnect t =
     setConnectionStatus False
       ((case peer t of
           None \<Rightarrow> t
         | Some p \<Rightarrow> t\<lparr>peers := (peers t)[p := (peers t ! p)\<lparr>destroyed := True\<rparr>]\<rparr>)
        \<lparr>peer := None\<rparr>)"

definition resetAndReconnect :: "'a P2PTransport \<Rightarrow> 'a P2PTransport" where
  "resetAndReconnect t = connect (disconnect t)"

definition updateMatchID :: "string \<Rightarrow> 'a P2PTransport \<Rightarrow> 'a P2PTransport" where
  "updateMatchID i t = resetAndReconnect (t\<lparr>P2PTransport.matchID := i\<rparr>)"

definition updatePlayerID :: "string \<Rightarrow> 'a P2PTransport \<Rightarrow> 'a P2PTransport" where
  "updatePlayerID i t = resetAndReconnect (t\<lparr>playerID := i\<rparr>)"

definition updateCredentials :: "string option \<Rightarrow> 'a P2PTransport \<Rightarrow> 'a P2PTransport" where
  "updateCredentials c t = resetAndReconnect (t\<lparr>credentials := c\<rparr>)"

subsection \<open>Events of the peer library\<close>

text \<open>
  The handlers that \<^verbatim>\<open>connect\<close> registers run when the library raises an event. An event
  on a destroyed peer, on a connection of a destroyed peer or on an object that has no
  handler changes nothing.
\<close>

datatype 'a event =
    PeerOpen nat
  | PeerConnection nat "'a Client"
  | ClientData ident "'a ClientAction"
  | ClientClose ident
  | HostOpen nat
  | HostData nat 'a

definition live_peer :: "nat \<Rightarrow> 'a P2PTransport \<Rightarrow> bool" where
  "live_peer p t = (p < length (peers t) \<and> \<not> destroyed (peers t ! p))"

definition live_conn :: "nat \<Rightarrow> 'a P2PTransport \<Rightarrow> bool" where
  "live_conn c t = (c < length (conns t) \<and> live_peer (conn_peer (conns t ! c)) t)"

fun accepted_host :: "ident \<Rightarrow> ('a Client \<times> nat) list \<Rightarrow> ('a Client \<times> nat) option" where
  "accepted_host i [] = None"
| "accepted_host i ((client, h) # rest) =
     (if ident client = i then Some (client, h) else accepted_host i rest)"

text \<open>
  The \<^verbatim>\<open>'open'\<close> handler of a client's peer dials through \<^verbatim>\<open>this.peer\<close> as it is when
  the event comes. It is the peer of the event unless \<^verbatim>\<open>connect\<close> has run again without
  a \<^verbatim>\<open>disconnect\<close> in between; where \<^verbatim>\<open>this.peer\<close> is \<^verbatim>\<open>null\<close> the handler stops
  at that expression and has changed nothing.
\<close>

fun fire :: "'a event \<Rightarrow> 'a P2PTransport \<Rightarrow> 'a P2PTransport" where
  "fire (PeerOpen p) t =
     (if \<not> live_peer p t then t
      else (case on_open (peers t ! p) of
              None \<Rightarrow> t
            | Some (hostID, metadata) \<Rightarrow>
                (case peer t of
                   None \<Rightarrow> t
                 | Some q \<Rightarrow>
                     t\<lparr>conns := conns t @
                          [\<lparr>conn_peer = q, dial_id = hostID, conn_metadata = metadata,
                            is_open = False, outbox = []\<rparr>],
                       emit := Some (HostSend (length (conns t)))\<rparr>)))"
| "fire (HostOpen c) t =
     (if \<not> live_conn c t then t
      else requestSync (t\<lparr>conns := (conns t)[c := (conns t ! c)\<lparr>is_open := True\<rparr>]\<rparr>))"
| "fire (HostData c data) t =
     (if \<not> live_conn c t then t else clientCallback data t)"
| "fire (PeerConnection p client) t =
     (if \<not> live_peer p t then t
      else (case on_connection (peers t ! p) of
              None \<Rightarrow> t
            | Some h \<Rightarrow>
                t\<lparr>hosts := (hosts t)[h := registerClient client (hosts t ! h)],
                  accepted := accepted t @ [(client, h)]\<rparr>))"
| "fire (ClientData i action) t =
     (case accepted_host i (accepted t) of
        None \<Rightarrow> t
      | Some (client, h) \<Rightarrow> t\<lparr>hosts := (hosts t)[h := processAction action (hosts t ! h)]\<rparr>)"
| "fire (ClientClose i) t =
     (case accepted_host i (accepted t) of
        None \<Rightarrow> t
      | Some (client, h) \<Rightarrow>
          t\<lparr>hosts := (hosts t)[h := unregisterClient client (hosts t ! h)],
            accepted := filter (\<lambda>(k, h'). ident k \<noteq> i) (accepted t)\<rparr>)"

fun run :: "'a event list \<Rightarrow> 'a P2PTransport \<Rightarrow> 'a P2PTransport" where
  "run [] t = t"
| "run (e # es) t = run es (fire e t)"

subsection \<open>What a call of a callback did\<close>

text \<open>
  The result of a callback is \<open>Inr\<close> of the wire when it returns and \<open>Inl\<close> of the
  exception and the wire when it throws. \<open>sent_to client data w r\<close> counts how often
  the call, started on the wire \<open>w\<close>, sent \<open>data\<close> to \<open>client\<close>, and \<open>fan_out data cs\<close>
  is one delivery of \<open>data\<close> to each client of \<open>cs\<close>, in order.
\<close>

definition returned :: "(error \<times> 'a wire) + 'a wire \<Rightarrow> bool" where
  "returned r = (case r of Inl e \<Rightarrow> False | Inr w \<Rightarrow> True)"

definition wire_after :: "(error \<times> 'a wire) + 'a wire \<Rightarrow> 'a wire" where
  "wire_after r = (case r of Inl (e, w) \<Rightarrow> w | Inr w \<Rightarrow> w)"

definition sent_to :: "'a Client \<Rightarrow> 'a \<Rightarrow> 'a wire \<Rightarrow> (error \<times> 'a wire) + 'a wire \<Rightarrow> nat" where
  "sent_to client data w r = count_list (drop (length w) (wire_after r)) (ident client, data)"

definition fan_out :: "'a \<Rightarrow> 'a Client list \<Rightarrow> 'a wire" where
  "fan_out data cs = map (\<lambda>c. (ident c, data)) cs"

text \<open>
  On a transport: whether a dialled connection of a live peer has opened, every action
  handed to a dialled connection so far, and the \<^verbatim>\<open>sync\<close> action that carries the transport's parameters.
\<close>

definition dial_succeeded :: "'a P2PTransport \<Rightarrow> bool" where
  "dial_succeeded t =
     list_ex (\<lambda>c. live_conn c t \<and> is_open (conns t ! c)) [0..<length (conns t)]"

definition all_sent :: "'a P2PTransport \<Rightarrow> 'a ClientAction list" where
  "all_sent t = concat (map outbox (conns t))"

definition sync_action :: "'a P2PTransport \<Rightarrow> 'a ClientAction" where
  "sync_action t =
     \<lparr>type = ''sync'',
      args = [JStr (P2PTransport.matchID t), JStr (playerID t),
              js_of_credentials (credentials t), JNum (numPlayers t)]\<rparr>"

text \<open>
  What holds after a reconnect of the transport \<open>t\<close> that gave \<open>t'\<close>: the status is
  connected and the parameters are those of \<open>t\<close>. A host listens under the name computed
  from them, has a new \<^verbatim>\<open>P2PHost\<close> for the match with its loopback client registered, and
  has passed a \<^verbatim>\<open>sync\<close> action with the parameters to it. A client waits for its new peer to
  open, with the name and the player to dial captured; it has sent nothing, and it sends
  the \<^verbatim>\<open>sync\<close> action with the parameters when the peer has opened and the dialled
  connection has opened.
\<close>

definition reconnected :: "'a P2PTransport \<Rightarrow> 'a P2PTransport \<Rightarrow> bool" where
  "reconnected t t' =
     (let p = length (peers t); h = length (hosts t); c = length (conns t)
      in isConnected t' \<and> peer t' = Some p \<and> live_peer p t' \<and>
         P2PTransport.matchID t' = P2PTransport.matchID t \<and> playerID t' = playerID t \<and>
         credentials t' = credentials t \<and>
         (if isHost t
          then peer_id (peers t' ! p) = namespacedPeerID t \<and>
               emit t' = Some (ProcessAction h) \<and>
               P2PHost.matchID (hosts t' ! h) = P2PTransport.matchID t \<and>
               map metadata_playerID (map_keys (clients (hosts t' ! h))) = [playerID t] \<and>
               calls (master (hosts t' ! h)) =
                 [OnConnectionChange
                    [JStr (P2PTransport.matchID t), JStr (playerID t), JUndefined, JBool True],
                  OnSync (args (sync_action t))]
          else on_open (peers t' ! p) = Some (namespacedPeerID t, playerID t) \<and>
               all_sent t' = all_sent t \<and>
               dial_id (conns (run [PeerOpen p] t') ! c) = namespacedPeerID t \<and>
               outbox (conns (run [PeerOpen p] t') ! c) = [] \<and>
               outbox (conns (run [PeerOpen p, HostOpen c] t') ! c) = [sync_action t]))"

subsection \<open>A match to compute on\<close>

text \<open>
  The match \<^verbatim>\<open>M1\<close> with two players: the loopback client of player \<^verbatim>\<open>P0\<close>, a remote
  connection of player \<^verbatim>\<open>P1\<close>, and a second connection of \<^verbatim>\<open>P1\<close> whose \<^verbatim>\<open>send\<close>
  throws. Payloads, games and moves are numbers.
\<close>

definition P0 :: "nat Client" where
  "P0 = \<lparr>ident = LocalClient 0, send = (\<lambda>data. None), metadata_playerID = ''P0''\<rparr>"

definition P1 :: "nat Client" where
  "P1 = \<lparr>ident = Connection 1, send = (\<lambda>data. None), metadata_playerID = ''P1''\<rparr>"

definition failing :: "nat Client" where
  "failing = \<lparr>ident = Connection 2, send = (\<lambda>data. Some (SendError (Connection 2))),
              metadata_playerID = ''P1''\<rparr>"

definition host_M1 :: "nat P2PHost" where
  "host_M1 = registerClient P1 (registerClient P0 (new_P2PHost 0 (Some 2) ''M1''))"

definition host_M1_swapped :: "nat P2PHost" where
  "host_M1_swapped = registerClient P0 (registerClient P1 (new_P2PHost 0 (Some 2) ''M1''))"

definition host_failing :: "nat P2PHost" where
  "host_failing =
     registerClient P1 (registerClient failing (registerClient P0 (new_P2PHost 0 (Some 2) ''M1'')))"

definition host_failing_last :: "nat P2PHost" where
  "host_failing_last =
     registerClient failing (registerClient P1 (registerClient P0 (new_P2PHost 0 (Some 2) ''M1'')))"

definition client_T :: "nat P2PTransport" where
  "client_T = new_P2PTransport (Some False) None 0 ''tic-tac-toe'' ''P1'' ''M1'' None 2"

definition host_T :: "nat P2PTransport" where
  "host_T = new_P2PTransport (Some True) None 0 ''tic-tac-toe'' ''P0'' ''M1'' None 2"

section \<open>Properties of the host\<close>

lemma sendAll_loop_returns:
  "\<forall>c\<in>set cs. send c data = None \<Longrightarrow> sendAll_loop data cs w = Inr (w @ fan_out data cs)"
  by (induction cs arbitrary: w) (simp_all add: client_send_def fan_out_def)

lemma send_loop_returns:
  "\<forall>c\<in>set cs. metadata_playerID c = pid \<longrightarrow> send c data = None \<Longrightarrow>
   send_loop pid data cs w = Inr (w @ fan_out data (filter (\<lambda>c. metadata_playerID c = pid) cs))"
  by (induction cs arbitrary: w) (simp_all add: client_send_def fan_out_def)

lemma sendAll_loop_throws:
  "\<forall>c\<in>set pre. send c data = None \<Longrightarrow> send bad data = Some e \<Longrightarrow>
   sendAll_loop data (pre @ bad # post) w = Inl (e, w @ fan_out data pre)"
  by (induction pre arbitrary: w) (simp_all add: client_send_def fan_out_def)

lemma send_loop_throws:
  "\<forall>c\<in>set pre. metadata_playerID c = pid \<longrightarrow> send c data = None \<Longrightarrow>
   send bad data = Some e \<Longrightarrow> metadata_playerID bad = pid \<Longrightarrow>
   send_loop pid data (pre @ bad # post) w =
     Inl (e, w @ fan_out data (filter (\<lambda>c. metadata_playerID c = pid) pre))"
  by (induction pre arbitrary: w) (simp_all add: client_send_def fan_out_def)

lemma count_fan_out:
  "distinct (map ident cs) \<Longrightarrow>
   count_list (fan_out data cs) (i, data) = (if i \<in> ident ` set cs then 1 else 0)"
  by (induction cs) (auto simp: fan_out_def)

lemma distinct_ident_filter:
  "distinct (map ident cs) \<Longrightarrow> distinct (map ident (filter P cs))"
  by (induction cs) auto

lemma map_keys_map_set:
  "map ident (map_keys (map_set k v m)) =
     (if ident k \<in> set (map ident (map_keys m)) then map ident (map_keys m)
      else map ident (map_keys m) @ [ident k])"
  by (induction m) (force simp: map_keys_def)+

lemma map_ok_map_set: "map_ok m \<Longrightarrow> map_ok (map_set k v m)"
  by (simp add: map_ok_def map_keys_map_set)

lemma map_ok_map_delete: "map_ok m \<Longrightarrow> map_ok (map_delete k m)"
  unfolding map_ok_def map_delete_def map_keys_def
  by (induction m) auto

text \<open>
  The clients of a host stay pairwise different objects: the constructor starts from no
  client, and no method of the host breaks it.
\<close>

lemma map_ok_new_P2PHost: "map_ok (clients (new_P2PHost g n mid))"
  by (simp add: new_P2PHost_def map_ok_def map_keys_def)

lemma map_ok_registerClient: "map_ok (clients h) \<Longrightarrow> map_ok (clients (registerClient c h))"
  by (simp add: registerClient_def call_master_def map_ok_map_set)

lemma map_ok_unregisterClient: "map_ok (clients h) \<Longrightarrow> map_ok (clients (unregisterClient c h))"
  by (simp add: unregisterClient_def call_master_def map_ok_map_delete)

lemma map_ok_processAction: "map_ok (clients h) \<Longrightarrow> map_ok (clients (processAction a h))"
  by (simp add: processAction_def call_master_def)

lemma map_delete_absent: "\<not> map_has k m \<Longrightarrow> map_delete k m = m"
  unfolding map_has_def map_delete_def map_keys_def
  by (induction m) auto

lemma map_set_twice: "map_set k v (map_set k v m) = map_set k v m"
  by (induction m) auto

lemma count_ident:
  "distinct (map ident cs) \<Longrightarrow>
   length (filter (\<lambda>k. ident k = i) cs) = (if i \<in> set (map ident cs) then 1 else 0)"
  by (induction cs) (auto simp: image_iff)

lemma count_key:
  "map_ok m \<Longrightarrow>
   length (filter (\<lambda>k. ident k = i) (map_keys m)) = (if i \<in> set (map ident (map_keys m)) then 1 else 0)"
  unfolding map_ok_def by (rule count_ident)

lemma map_has_map_set: "map_has k (map_set k v m)"
  by (simp add: map_has_def map_keys_map_set)

lemmas host_examples =
  P0_def P1_def failing_def host_M1_def host_M1_swapped_def host_failing_def
  host_failing_last_def new_P2PHost_def
  registerClient_def unregisterClient_def call_master_def map_keys_def map_ok_def map_has_def
  map_delete_def master_send_def master_sendAll_def client_send_def returned_def wire_after_def
  sent_to_def

text \<open>
  C8: \<^verbatim>\<open>processAction\<close> dispatches on the tag of the action. An \<^verbatim>\<open>update\<close> action calls
  \<^verbatim>\<open>onUpdate\<close> of the master, a \<^verbatim>\<open>chat\<close> action \<^verbatim>\<open>onChatMessage\<close>, a \<^verbatim>\<open>sync\<close> action
  \<^verbatim>\<open>onSync\<close>, each with the argument list the action carries, as it is; an action with any
  other tag calls nothing and leaves the host as it was. The clients and the match are
  never touched.
\<close>

theorem processAction_dispatch:
  "(type data = ''update'' \<longrightarrow>
      calls (master (processAction data h)) = calls (master h) @ [OnUpdate (args data)]) \<and>
   (type data = ''chat'' \<longrightarrow>
      calls (master (processAction data h)) = calls (master h) @ [OnChatMessage (args data)]) \<and>
   (type data = ''sync'' \<longrightarrow>
      calls (master (processAction data h)) = calls (master h) @ [OnSync (args data)]) \<and>
   (type data \<notin> {''update'', ''chat'', ''sync''} \<longrightarrow> processAction data h = h) \<and>
   clients (processAction data h) = clients h \<and>
   P2PHost.matchID (processAction data h) = P2PHost.matchID h"
  by (simp add: processAction_def call_master_def)

theorem processAction_dispatch_witness:
  "calls (master (processAction \<lparr>type = ''update'', args = [JObj 5, JNum 0, JStr ''M1'', JStr ''P0'']\<rparr> host_M1))
     = calls (master host_M1) @ [OnUpdate [JObj 5, JNum 0, JStr ''M1'', JStr ''P0'']] \<and>
   calls (master (processAction \<lparr>type = ''chat'', args = [JStr ''M1'', JObj 6, JUndefined]\<rparr> host_M1))
     = calls (master host_M1) @ [OnChatMessage [JStr ''M1'', JObj 6, JUndefined]] \<and>
   calls (master (processAction \<lparr>type = ''sync'', args = [JStr ''M1'', JStr ''P0'', JUndefined, JNum 2]\<rparr> host_M1))
     = calls (master host_M1) @ [OnSync [JStr ''M1'', JStr ''P0'', JUndefined, JNum 2]] \<and>
   ''ping'' \<notin> {''update'', ''chat'', ''sync''} \<and>
   processAction \<lparr>type = ''ping'', args = [JNum 1]\<rparr> host_M1 = host_M1"
  using processAction_dispatch [of "\<lparr>type = ''update'', args = [JObj 5, JNum 0, JStr ''M1'', JStr ''P0'']\<rparr>" host_M1]
    processAction_dispatch [of "\<lparr>type = ''chat'', args = [JStr ''M1'', JObj 6, JUndefined]\<rparr>" host_M1]
    processAction_dispatch [of "\<lparr>type = ''sync'', args = [JStr ''M1'', JStr ''P0'', JUndefined, JNum 2]\<rparr>" host_M1]
    processAction_dispatch [of "\<lparr>type = ''ping'', args = [JNum 1]\<rparr>" host_M1]
  by simp

text \<open>
  C10: \<^verbatim>\<open>unregisterClient\<close> of a client that is not registered leaves the clients as they
  are and still tells the master that the client's player is disconnected.
  \<^verbatim>\<open>registerClient\<close> twice with the same client leaves the clients as after the first call,
  with exactly one entry for that client, and tells the master twice that the player is
  connected.
\<close>

theorem register_unregister_identity:
  "(\<not> map_has c (clients h) \<longrightarrow>
      clients (unregisterClient c h) = clients h \<and>
      calls (master (unregisterClient c h)) = calls (master h) @
        [OnConnectionChange [JStr (P2PHost.matchID h), JStr (metadata_playerID c), JUndefined, JBool False]]) \<and>
   clients (registerClient c (registerClient c h)) = clients (registerClient c h) \<and>
   (map_ok (clients h) \<longrightarrow>
      length (filter (\<lambda>k. ident k = ident c) (map_keys (clients (registerClient c (registerClient c h))))) = 1) \<and>
   calls (master (registerClient c (registerClient c h))) = calls (master h) @
     [OnConnectionChange [JStr (P2PHost.matchID h), JStr (metadata_playerID c), JUndefined, JBool True],
      OnConnectionChange [JStr (P2PHost.matchID h), JStr (metadata_playerID c), JUndefined, JBool True]]"
proof -
  have "map_ok (clients h) \<Longrightarrow>
      length (filter (\<lambda>k. ident k = ident c) (map_keys (map_set c c (clients h)))) = 1"
    using count_key [OF map_ok_map_set, of "clients h" "ident c" c c] map_has_map_set [of c c "clients h"]
    by (simp add: map_has_def)
  then show ?thesis
    by (simp add: registerClient_def unregisterClient_def call_master_def map_delete_absent map_set_twice)
qed

theorem register_unregister_identity_witness:
  "\<not> map_has failing (clients host_M1) \<and>
   clients (unregisterClient failing host_M1) = clients host_M1 \<and>
   calls (master (unregisterClient failing host_M1)) = calls (master host_M1) @
     [OnConnectionChange [JStr ''M1'', JStr ''P1'', JUndefined, JBool False]] \<and>
   map_ok (clients host_M1) \<and>
   map_keys (clients (registerClient P1 (registerClient P1 host_M1))) = [P0, P1] \<and>
   length (filter (\<lambda>k. ident k = ident P1) (map_keys (clients (registerClient P1 (registerClient P1 host_M1))))) = 1 \<and>
   calls (master (registerClient P1 (registerClient P1 host_M1))) = calls (master host_M1) @
     [OnConnectionChange [JStr ''M1'', JStr ''P1'', JUndefined, JBool True],
      OnConnectionChange [JStr ''M1'', JStr ''P1'', JUndefined, JBool True]]"
  using register_unregister_identity [of failing host_M1] register_unregister_identity [of P1 host_M1]
  by (simp add: host_examples)

lemma mset_fan_out: "mset cs' = mset cs \<Longrightarrow> mset (fan_out data cs') = mset (fan_out data cs)"
  unfolding fan_out_def by (metis mset_map)

lemma sent_to_wire:
  assumes "distinct (map ident cs)" and "wire_after r = w @ fan_out data cs"
  shows "sent_to c data w r = (if ident c \<in> set (map ident cs) then 1 else 0)"
  using count_fan_out [OF assms(1), of data "ident c"] assms(2)
  by (simp add: sent_to_def)

lemma distinct_ident_append:
  "distinct (map ident (pre @ bad # post)) \<Longrightarrow>
   distinct (map ident pre) \<and> (\<forall>c\<in>set (bad # post). ident c \<notin> set (map ident pre))"
  by auto

lemma ident_filter_subset: "set (map ident (filter P cs)) \<subseteq> set (map ident cs)"
  by auto

lemma send_loop_wire:
  "wire_after (send_loop pid data cs w) =
     w @ fan_out data (filter (\<lambda>c. metadata_playerID c = pid)
           (takeWhile (\<lambda>c. metadata_playerID c = pid \<longrightarrow> send c data = None) cs))"
  by (induction cs arbitrary: w)
    (auto simp: client_send_def fan_out_def wire_after_def split: option.split)

lemma send_loop_returned:
  "returned (send_loop pid data cs w) =
     (\<forall>c\<in>set cs. metadata_playerID c = pid \<longrightarrow> send c data = None)"
  by (induction cs arbitrary: w)
    (auto simp: client_send_def returned_def split: option.split)

lemma sendAll_loop_wire:
  "wire_after (sendAll_loop data cs w) = w @ fan_out data (takeWhile (\<lambda>c. send c data = None) cs)"
  by (induction cs arbitrary: w)
    (auto simp: client_send_def fan_out_def wire_after_def split: option.split)

lemma sendAll_loop_returned:
  "returned (sendAll_loop data cs w) = (\<forall>c\<in>set cs. send c data = None)"
  by (induction cs arbitrary: w)
    (auto simp: client_send_def returned_def split: option.split)

lemma distinct_ident_takeWhile:
  "distinct (map ident cs) \<Longrightarrow> distinct (map ident (takeWhile P cs))"
  by (induction cs) (auto dest: set_takeWhileD)

lemma ident_inj_on_keys:
  "distinct (map ident cs) \<Longrightarrow> c \<in> set cs \<Longrightarrow> c' \<in> set cs \<Longrightarrow> ident c' = ident c \<Longrightarrow> c' = c"
  by (metis distinct_map inj_on_def)

lemma sent_to_sublist:
  assumes d: "distinct (map ident cs)" and sub: "set ds \<subseteq> set cs" and dd: "distinct (map ident ds)"
    and r: "wire_after r = w @ fan_out data ds" and c: "c \<in> set cs"
  shows "sent_to c data w r = (if c \<in> set ds then 1 else 0)"
proof -
  have "ident c \<in> set (map ident ds) \<longleftrightarrow> c \<in> set ds"
  proof
    assume "ident c \<in> set (map ident ds)"
    then obtain c' where c': "c' \<in> set ds" "ident c' = ident c" by auto
    with sub have "c' \<in> set cs" by blast
    with d c c' have "c' = c" by (metis ident_inj_on_keys)
    with c' show "c \<in> set ds" by simp
  qed simp
  with sent_to_wire [OF dd r, of c] show ?thesis by simp
qed

text \<open>
  C4 as stated fails. With the clients \<^verbatim>\<open>P0\<close>, a connection whose \<^verbatim>\<open>send\<close> throws and
  \<^verbatim>\<open>P1\<close>, registered in this order, \<^verbatim>\<open>sendAll\<close> does not return and the registered
  client \<^verbatim>\<open>P1\<close>, whose own \<^verbatim>\<open>send\<close> returns, is sent the payload zero times. With the
  same three clients registered with the failing connection last, \<^verbatim>\<open>P1\<close> is sent it once:
  what is delivered depends on the insertion order.
\<close>

theorem sendAll_every_client_counterexample:
  "map_ok (clients host_failing) \<and> map_ok (clients host_failing_last) \<and>
   map_keys (clients host_failing) = [P0, failing, P1] \<and>
   map_keys (clients host_failing_last) = [P0, P1, failing] \<and>
   send P1 4 = None \<and>
   \<not> returned (master_sendAll host_failing 4 []) \<and>
   sent_to P1 4 [] (master_sendAll host_failing 4 []) = 0 \<and>
   sent_to P1 4 [] (master_sendAll host_failing_last 4 []) = 1"
  by (simp add: host_examples)

text \<open>
  C4, amended: \<^verbatim>\<open>sendAll\<close> returns exactly when no \<^verbatim>\<open>send\<close> of a registered client
  throws. It keeps what was on the wire, sends the payload to nobody but registered clients
  and to no client twice, and when it returns it has sent the payload to every registered
  client exactly once. A host with the same clients registered in another order returns in
  the same cases and then has sent the same deliveries, up to their order.
\<close>

theorem sendAll_reaches_every_client_once:
  assumes "map_ok (clients h)"
  shows "(returned (master_sendAll h data w) \<longleftrightarrow>
            (\<forall>c\<in>set (map_keys (clients h)). send c data = None)) \<and>
         take (length w) (wire_after (master_sendAll h data w)) = w \<and>
         (\<forall>c\<in>set (map_keys (clients h)). sent_to c data w (master_sendAll h data w) \<le> 1) \<and>
         set (drop (length w) (wire_after (master_sendAll h data w))) \<subseteq>
           (\<lambda>c. (ident c, data)) ` set (map_keys (clients h)) \<and>
         (returned (master_sendAll h data w) \<longrightarrow>
            (\<forall>c\<in>set (map_keys (clients h)). sent_to c data w (master_sendAll h data w) = 1) \<and>
            length (wire_after (master_sendAll h data w)) = length w + length (clients h)) \<and>
         (\<forall>h'. mset (map_keys (clients h')) = mset (map_keys (clients h)) \<longrightarrow>
            (returned (master_sendAll h' data w) \<longleftrightarrow> returned (master_sendAll h data w)) \<and>
            (returned (master_sendAll h data w) \<longrightarrow>
               mset (wire_after (master_sendAll h' data w)) = mset (wire_after (master_sendAll h data w))))"
proof -
  let ?cs = "map_keys (clients h)"
  let ?r = "master_sendAll h data w"
  let ?ok = "\<lambda>c. send c data = None"
  let ?ds = "takeWhile ?ok ?cs"
  have d: "distinct (map ident ?cs)"
    using assms by (simp add: map_ok_def)
  have wa: "wire_after ?r = w @ fan_out data ?ds"
    unfolding master_sendAll_def by (rule sendAll_loop_wire)
  have ret: "returned ?r \<longleftrightarrow> (\<forall>c\<in>set ?cs. ?ok c)"
    unfolding master_sendAll_def by (rule sendAll_loop_returned)
  have sub: "set ?ds \<subseteq> set ?cs"
    by (auto dest: set_takeWhileD)
  have dd: "distinct (map ident ?ds)"
    using d by (rule distinct_ident_takeWhile)
  have cnt: "sent_to c data w ?r = (if c \<in> set ?ds then 1 else 0)" if "c \<in> set ?cs" for c
    using d sub dd wa that by (rule sent_to_sublist)
  have most: "\<forall>c\<in>set ?cs. sent_to c data w ?r \<le> 1"
    by (simp add: cnt)
  have only: "set (drop (length w) (wire_after ?r)) \<subseteq> (\<lambda>c. (ident c, data)) ` set ?cs"
    using sub by (auto simp: wa fan_out_def)
  have full: "(\<forall>c\<in>set ?cs. sent_to c data w ?r = 1) \<and>
      length (wire_after ?r) = length w + length (clients h)"
    if "returned ?r"
  proof -
    from that ret have tw: "takeWhile ?ok ?cs = ?cs"
      by (simp add: takeWhile_eq_all_conv)
    have "\<forall>c\<in>set ?cs. sent_to c data w ?r = 1"
      by (simp add: cnt tw)
    moreover have "length (wire_after ?r) = length w + length (clients h)"
      by (simp add: wa tw fan_out_def) (simp add: map_keys_def)
    ultimately show ?thesis by (rule conjI)
  qed
  have perm: "(returned (master_sendAll h' data w) \<longleftrightarrow> returned ?r) \<and>
      (returned ?r \<longrightarrow> mset (wire_after (master_sendAll h' data w)) = mset (wire_after ?r))"
    if eq: "mset (map_keys (clients h')) = mset ?cs" for h'
  proof -
    let ?cs' = "map_keys (clients h')"
    have same: "set ?cs' = set ?cs"
      using eq by (rule mset_eq_setD)
    have ret': "returned (master_sendAll h' data w) \<longleftrightarrow> (\<forall>c\<in>set ?cs'. ?ok c)"
      unfolding master_sendAll_def by (rule sendAll_loop_returned)
    have both: "returned (master_sendAll h' data w) \<longleftrightarrow> returned ?r"
      by (simp add: ret ret' same)
    have "mset (wire_after (master_sendAll h' data w)) = mset (wire_after ?r)" if r: "returned ?r"
    proof -
      from r ret have all: "\<forall>c\<in>set ?cs. ?ok c" by simp
      then have all': "\<forall>c\<in>set ?cs'. ?ok c" by (simp add: same)
      have "master_sendAll h data w = Inr (w @ fan_out data ?cs)"
        unfolding master_sendAll_def using all by (rule sendAll_loop_returns)
      moreover have "master_sendAll h' data w = Inr (w @ fan_out data ?cs')"
        unfolding master_sendAll_def using all' by (rule sendAll_loop_returns)
      ultimately show ?thesis
        using mset_fan_out [OF eq, of data] by (simp add: wire_after_def)
    qed
    with both show ?thesis by blast
  qed
  have pre: "take (length w) (wire_after ?r) = w"
    by (simp add: wa)
  from ret pre most only full perm show ?thesis
    by blast
qed

theorem sendAll_reaches_every_client_once_witness:
  "map_ok (clients host_M1) \<and>
   send P0 4 = None \<and> send P1 4 = None \<and>
   map_keys (clients host_M1) = [P0, P1] \<and>
   map_keys (clients host_M1_swapped) = [P1, P0] \<and>
   returned (master_sendAll host_M1 4 []) \<and>
   master_sendAll host_M1 4 [] = Inr [(LocalClient 0, 4), (Connection 1, 4)] \<and>
   sent_to P0 4 [] (master_sendAll host_M1 4 []) = 1 \<and>
   sent_to P1 4 [] (master_sendAll host_M1 4 []) = 1 \<and>
   returned (master_sendAll host_M1_swapped 4 []) \<and>
   mset (wire_after (master_sendAll host_M1_swapped 4 [])) = mset (wire_after (master_sendAll host_M1 4 []))"
proof -
  have ok: "map_ok (clients host_M1)"
    by (simp add: host_examples)
  have keys: "map_keys (clients host_M1) = [P0, P1]" "map_keys (clients host_M1_swapped) = [P1, P0]"
    by (simp_all add: host_examples)
  have each: "send P0 4 = None" "send P1 4 = None"
    by (simp_all add: P0_def P1_def)
  have run: "master_sendAll host_M1 4 [] = Inr [(LocalClient 0, 4), (Connection 1, 4)]"
    by (simp add: host_examples)
  have sw: "mset (map_keys (clients host_M1_swapped)) = mset (map_keys (clients host_M1))"
    by (simp add: keys)
  note inst = sendAll_reaches_every_client_once [OF ok, of 4 "[]"]
  from inst have everyone: "returned (master_sendAll host_M1 4 [])"
    "sent_to P0 4 [] (master_sendAll host_M1 4 []) = 1"
    "sent_to P1 4 [] (master_sendAll host_M1 4 []) = 1"
    by (simp_all add: keys each)
  from inst sw everyone(1) have "returned (master_sendAll host_M1_swapped 4 [])"
    "mset (wire_after (master_sendAll host_M1_swapped 4 [])) = mset (wire_after (master_sendAll host_M1 4 []))"
    by blast+
  with ok keys each run everyone show ?thesis by blast
qed

text \<open>
  C3 as stated fails. With the clients \<^verbatim>\<open>P0\<close>, a connection of player \<^verbatim>\<open>P1\<close> whose
  \<^verbatim>\<open>send\<close> throws and \<^verbatim>\<open>P1\<close>, registered in this order, \<^verbatim>\<open>send\<close> to player \<^verbatim>\<open>P1\<close>
  does not return, and the registered client \<^verbatim>\<open>P1\<close>, whose player is the target and whose
  own \<^verbatim>\<open>send\<close> returns, is sent the payload zero times.
\<close>

theorem send_matching_clients_counterexample:
  "map_ok (clients host_failing) \<and>
   map_keys (clients host_failing) = [P0, failing, P1] \<and>
   metadata_playerID P1 = ''P1'' \<and> send P1 7 = None \<and>
   \<not> returned (master_send host_failing ''P1'' 7 []) \<and>
   sent_to P1 7 [] (master_send host_failing ''P1'' 7 []) = 0"
  by (simp add: host_examples)

text \<open>
  C3, amended: \<^verbatim>\<open>send\<close> to a player returns exactly when no \<^verbatim>\<open>send\<close> of a registered
  client of that player throws. It keeps what was on the wire and sends the payload to no registered
  client of another player, to nothing that is not a registered client of the player, and
  to no client twice; when it returns, it has sent the payload exactly once to every
  registered client whose \<^verbatim>\<open>metadata.playerID\<close> is the player. When no client matches it
  returns and the wire is unchanged.
\<close>

theorem send_reaches_matching_clients_only:
  assumes "map_ok (clients h)"
  shows "(returned (master_send h pid data w) \<longleftrightarrow>
            (\<forall>c\<in>set (map_keys (clients h)). metadata_playerID c = pid \<longrightarrow> send c data = None)) \<and>
         take (length w) (wire_after (master_send h pid data w)) = w \<and>
         (\<forall>c\<in>set (map_keys (clients h)). metadata_playerID c \<noteq> pid \<longrightarrow>
            sent_to c data w (master_send h pid data w) = 0) \<and>
         (\<forall>c\<in>set (map_keys (clients h)). sent_to c data w (master_send h pid data w) \<le> 1) \<and>
         set (drop (length w) (wire_after (master_send h pid data w))) \<subseteq>
           (\<lambda>c. (ident c, data)) ` {c \<in> set (map_keys (clients h)). metadata_playerID c = pid} \<and>
         (returned (master_send h pid data w) \<longrightarrow>
            (\<forall>c\<in>set (map_keys (clients h)). metadata_playerID c = pid \<longrightarrow>
               sent_to c data w (master_send h pid data w) = 1) \<and>
            length (wire_after (master_send h pid data w)) =
              length w + length (filter (\<lambda>c. metadata_playerID c = pid) (map_keys (clients h)))) \<and>
         ((\<forall>c\<in>set (map_keys (clients h)). metadata_playerID c \<noteq> pid) \<longrightarrow>
            master_send h pid data w = Inr w)"
proof -
  let ?cs = "map_keys (clients h)"
  let ?r = "master_send h pid data w"
  let ?ok = "\<lambda>c. metadata_playerID c = pid \<longrightarrow> send c data = None"
  let ?ds = "filter (\<lambda>c. metadata_playerID c = pid) (takeWhile ?ok ?cs)"
  have d: "distinct (map ident ?cs)"
    using assms by (simp add: map_ok_def)
  have wa: "wire_after ?r = w @ fan_out data ?ds"
    unfolding master_send_def by (rule send_loop_wire)
  have ret: "returned ?r \<longleftrightarrow> (\<forall>c\<in>set ?cs. ?ok c)"
    unfolding master_send_def by (rule send_loop_returned)
  have sub: "set ?ds \<subseteq> set ?cs"
    by (auto dest: set_takeWhileD)
  have dd: "distinct (map ident ?ds)"
    using d by (intro distinct_ident_filter distinct_ident_takeWhile)
  have cnt: "sent_to c data w ?r = (if c \<in> set ?ds then 1 else 0)" if "c \<in> set ?cs" for c
    using d sub dd wa that by (rule sent_to_sublist)
  have other: "\<forall>c\<in>set ?cs. metadata_playerID c \<noteq> pid \<longrightarrow> sent_to c data w ?r = 0"
    by (simp add: cnt)
  have most: "\<forall>c\<in>set ?cs. sent_to c data w ?r \<le> 1"
    by (simp add: cnt)
  have only: "set (drop (length w) (wire_after ?r)) \<subseteq>
      (\<lambda>c. (ident c, data)) ` {c \<in> set ?cs. metadata_playerID c = pid}"
    using sub by (auto simp: wa fan_out_def)
  have full: "(\<forall>c\<in>set ?cs. metadata_playerID c = pid \<longrightarrow> sent_to c data w ?r = 1) \<and>
      length (wire_after ?r) = length w + length (filter (\<lambda>c. metadata_playerID c = pid) ?cs)"
    if "returned ?r"
  proof -
    from that ret have tw: "takeWhile ?ok ?cs = ?cs"
      by (simp add: takeWhile_eq_all_conv)
    have "\<forall>c\<in>set ?cs. metadata_playerID c = pid \<longrightarrow> sent_to c data w ?r = 1"
      by (simp add: cnt tw)
    moreover have "length (wire_after ?r) =
        length w + length (filter (\<lambda>c. metadata_playerID c = pid) ?cs)"
      by (simp add: wa tw fan_out_def)
    ultimately show ?thesis by (rule conjI)
  qed
  have none: "?r = Inr w" if "\<forall>c\<in>set ?cs. metadata_playerID c \<noteq> pid"
  proof -
    from that have "filter (\<lambda>c. metadata_playerID c = pid) ?cs = []"
      by (simp add: filter_empty_conv)
    moreover from that have "\<forall>c\<in>set ?cs. ?ok c"
      by simp
    ultimately show ?thesis
      unfolding master_send_def using send_loop_returns [of ?cs pid data w] by (simp add: fan_out_def)
  qed
  have pre: "take (length w) (wire_after ?r) = w"
    by (simp add: wa)
  from ret pre other most only full none show ?thesis
    by blast
qed

theorem send_reaches_matching_clients_only_witness:
  "map_ok (clients host_M1) \<and>
   map_keys (clients host_M1) = [P0, P1] \<and>
   metadata_playerID P0 = ''P0'' \<and> send P0 7 = None \<and> metadata_playerID P1 = ''P1'' \<and>
   returned (master_send host_M1 ''P0'' 7 []) \<and>
   master_send host_M1 ''P0'' 7 [] = Inr [(LocalClient 0, 7)] \<and>
   sent_to P0 7 [] (master_send host_M1 ''P0'' 7 []) = 1 \<and>
   sent_to P1 7 [] (master_send host_M1 ''P0'' 7 []) = 0 \<and>
   metadata_playerID P0 \<noteq> ''P9'' \<and> metadata_playerID P1 \<noteq> ''P9'' \<and>
   master_send host_M1 ''P9'' 7 [] = Inr []"
proof -
  have ok: "map_ok (clients host_M1)"
    by (simp add: host_examples)
  have keys: "map_keys (clients host_M1) = [P0, P1]"
    by (simp add: host_examples)
  have ids: "metadata_playerID P0 = ''P0''" "metadata_playerID P1 = ''P1''" "send P0 7 = None"
    by (simp_all add: P0_def P1_def)
  have run: "master_send host_M1 ''P0'' 7 [] = Inr [(LocalClient 0, 7)]"
    by (simp add: host_examples)
  from send_reaches_matching_clients_only [OF ok, of "''P0''" 7 "[]"]
    send_reaches_matching_clients_only [OF ok, of "''P9''" 7 "[]"] keys ids ok run
  show ?thesis by simp
qed

text \<open>
  C1 as stated fails. With the clients \<^verbatim>\<open>P0\<close>, a connection whose \<^verbatim>\<open>send\<close> throws and
  \<^verbatim>\<open>P1\<close>, registered in this order, \<^verbatim>\<open>sendAll\<close> throws after \<^verbatim>\<open>P0\<close> and \<^verbatim>\<open>P1\<close> is
  sent nothing, and \<^verbatim>\<open>send\<close> to the player of \<^verbatim>\<open>P1\<close> throws and \<^verbatim>\<open>P1\<close> is sent nothing.
\<close>

theorem fan_out_isolation_counterexample:
  "map_keys (clients host_failing) = [P0, failing, P1] \<and>
   send failing 1 = Some (SendError (Connection 2)) \<and>
   send P1 1 = None \<and>
   master_sendAll host_failing 1 [] = Inl (SendError (Connection 2), [(LocalClient 0, 1)]) \<and>
   sent_to P1 1 [] (master_sendAll host_failing 1 []) = 0 \<and>
   metadata_playerID P1 = ''P1'' \<and>
   master_send host_failing ''P1'' 1 [] = Inl (SendError (Connection 2), []) \<and>
   sent_to P1 1 [] (master_send host_failing ''P1'' 1 []) = 0"
  by (simp add: host_examples)

text \<open>
  C1, amended: when the \<^verbatim>\<open>send\<close> of a registered client throws and no earlier one does,
  the exception leaves the callback. The clients registered before the failing one that
  should receive the payload have been sent it exactly once; the failing client and every
  client registered after it are sent nothing.
\<close>

theorem failing_send_ends_fan_out:
  assumes "map_ok (clients h)"
    and "map_keys (clients h) = pre @ bad # post"
    and "send bad data = Some e"
  shows "((\<forall>c\<in>set pre. send c data = None) \<longrightarrow>
            master_sendAll h data w = Inl (e, w @ fan_out data pre) \<and>
            (\<forall>c\<in>set pre. sent_to c data w (master_sendAll h data w) = 1) \<and>
            (\<forall>c\<in>set (bad # post). sent_to c data w (master_sendAll h data w) = 0)) \<and>
         (metadata_playerID bad = pid \<and>
          (\<forall>c\<in>set pre. metadata_playerID c = pid \<longrightarrow> send c data = None) \<longrightarrow>
            master_send h pid data w =
              Inl (e, w @ fan_out data (filter (\<lambda>c. metadata_playerID c = pid) pre)) \<and>
            (\<forall>c\<in>set pre. metadata_playerID c = pid \<longrightarrow> sent_to c data w (master_send h pid data w) = 1) \<and>
            (\<forall>c\<in>set (bad # post). sent_to c data w (master_send h pid data w) = 0))"
    (is "(?all_ok \<longrightarrow> ?all_sent) \<and> (?one_ok \<longrightarrow> ?one_sent)")
proof -
  from assms(1,2) have d: "distinct (map ident (pre @ bad # post))"
    by (simp add: map_ok_def)
  from distinct_ident_append [OF d]
  have dpre: "distinct (map ident pre)"
    and later: "\<forall>c\<in>set (bad # post). ident c \<notin> set (map ident pre)"
    by blast+
  have all: ?all_sent
    if ok: "\<forall>c\<in>set pre. send c data = None"
  proof -
    have r: "master_sendAll h data w = Inl (e, w @ fan_out data pre)"
      unfolding master_sendAll_def assms(2) using ok assms(3) by (rule sendAll_loop_throws)
    then have wa: "wire_after (master_sendAll h data w) = w @ fan_out data pre"
      by (simp add: wire_after_def)
    from later have "(\<forall>c\<in>set pre. sent_to c data w (master_sendAll h data w) = 1) \<and>
        (\<forall>c\<in>set (bad # post). sent_to c data w (master_sendAll h data w) = 0)"
      by (simp add: sent_to_wire [OF dpre wa])
    with r show ?thesis by blast
  qed
  let ?ms = "filter (\<lambda>c. metadata_playerID c = pid) pre"
  have one: ?one_sent
    if m: "metadata_playerID bad = pid"
      and ok: "\<forall>c\<in>set pre. metadata_playerID c = pid \<longrightarrow> send c data = None"
  proof -
    have r: "master_send h pid data w = Inl (e, w @ fan_out data ?ms)"
      unfolding master_send_def assms(2) using ok assms(3) m by (rule send_loop_throws)
    then have wa: "wire_after (master_send h pid data w) = w @ fan_out data ?ms"
      by (simp add: wire_after_def)
    have dms: "distinct (map ident ?ms)"
      using dpre by (rule distinct_ident_filter)
    have "\<forall>c\<in>set (bad # post). ident c \<notin> set (map ident ?ms)"
      using later ident_filter_subset [of "\<lambda>c. metadata_playerID c = pid" pre] by blast
    moreover have "\<forall>c\<in>set pre. metadata_playerID c = pid \<longrightarrow> ident c \<in> set (map ident ?ms)"
      by simp
    ultimately have "(\<forall>c\<in>set pre. metadata_playerID c = pid \<longrightarrow>
                         sent_to c data w (master_send h pid data w) = 1) \<and>
        (\<forall>c\<in>set (bad # post). sent_to c data w (master_send h pid data w) = 0)"
      by (simp add: sent_to_wire [OF dms wa])
    with r show ?thesis by blast
  qed
  show ?thesis
  proof (rule conjI; rule impI)
    assume ?all_ok
    then show ?all_sent by (rule all)
  next
    assume ?one_ok
    then have "metadata_playerID bad = pid"
      and "\<forall>c\<in>set pre. metadata_playerID c = pid \<longrightarrow> send c data = None"
      by (rule conjunct1, rule conjunct2)
    then show ?one_sent by (rule one)
  qed
qed

theorem failing_send_ends_fan_out_witness:
  "map_ok (clients host_failing) \<and>
   map_keys (clients host_failing) = [P0] @ failing # [P1] \<and>
   send failing 1 = Some (SendError (Connection 2)) \<and>
   send P0 1 = None \<and>
   master_sendAll host_failing 1 [] = Inl (SendError (Connection 2), [(LocalClient 0, 1)]) \<and>
   sent_to P0 1 [] (master_sendAll host_failing 1 []) = 1 \<and>
   sent_to failing 1 [] (master_sendAll host_failing 1 []) = 0 \<and>
   sent_to P1 1 [] (master_sendAll host_failing 1 []) = 0 \<and>
   metadata_playerID failing = ''P1'' \<and>
   metadata_playerID P0 \<noteq> ''P1'' \<and>
   master_send host_failing ''P1'' 1 [] = Inl (SendError (Connection 2), []) \<and>
   sent_to P1 1 [] (master_send host_failing ''P1'' 1 []) = 0"
proof -
  have ok: "map_ok (clients host_failing)"
    by (simp add: host_examples)
  have keys: "map_keys (clients host_failing) = [P0] @ failing # [P1]"
    by (simp add: host_examples)
  have bad: "send failing 1 = Some (SendError (Connection 2))"
    by (simp add: failing_def)
  have pre: "\<forall>c\<in>set [P0]. send c 1 = None"
    "\<forall>c\<in>set [P0]. metadata_playerID c = ''P1'' \<longrightarrow> send c 1 = None"
    "metadata_playerID failing = ''P1''"
    by (simp_all add: P0_def failing_def)
  have f: "fan_out 1 [P0] = [(LocalClient 0, 1)]" "filter (\<lambda>c. metadata_playerID c = ''P1'') [P0] = []"
    by (simp_all add: fan_out_def P0_def)
  from failing_send_ends_fan_out [OF ok keys bad, where pid = "''P1''" and w = "[]"] ok keys bad pre f
  show ?thesis by (simp add: fan_out_def host_examples)
qed

section \<open>Properties of the transport\<close>

lemmas transport_defs =
  connect_def disconnect_def setConnectionStatus_def namespacedPeerID_def new_Peer_def
  requestSync_def live_peer_def live_conn_def resetAndReconnect_def

lemmas transport_examples =
  client_T_def host_T_def new_P2PTransport_def transport_defs new_P2PHost_def registerClient_def
  call_master_def processAction_def js_of_credentials_def dial_succeeded_def all_sent_def
  sync_action_def updateMatchID_def updatePlayerID_def updateCredentials_def clientCallback_def

lemma dial_succeeded_iff:
  "dial_succeeded t = (\<exists>c. live_conn c t \<and> is_open (conns t ! c))"
  by (auto simp: dial_succeeded_def list_ex_iff live_conn_def)

lemma emit_call_peers [simp]: "peers (emit_call e a t) = peers t"
  by (cases e) simp_all

lemma emit_call_length [simp]: "length (conns (emit_call e a t)) = length (conns t)"
  by (cases e) simp_all

lemma emit_call_is_open [simp]: "is_open (conns (emit_call e a t) ! c) = is_open (conns t ! c)"
  by (cases e) (simp_all add: nth_list_update)

lemma emit_call_conn_peer [simp]: "conn_peer (conns (emit_call e a t) ! c) = conn_peer (conns t ! c)"
  by (cases e) (simp_all add: nth_list_update)

lemma live_conn_emit_call [simp]: "live_conn c (emit_call e a t) = live_conn c t"
  by (simp add: live_conn_def live_peer_def)

lemma dial_succeeded_requestSync: "dial_succeeded (requestSync t) = dial_succeeded t"
  by (simp add: dial_succeeded_iff requestSync_def split: option.split)

lemma conns_connect: "conns (connect t) = conns t"
  by (simp add: connect_def Let_def setConnectionStatus_def requestSync_def processAction_def)

lemma all_sent_connect: "all_sent (connect t) = all_sent t"
  by (simp add: all_sent_def conns_connect)

lemma fire_sent_or_open:
  "all_sent (fire e t) = all_sent t \<or> dial_succeeded (fire e t)"
proof (cases e)
  case (HostOpen c)
  show ?thesis
  proof (cases "live_conn c t")
    case True
    let ?t = "t\<lparr>conns := (conns t)[c := (conns t ! c)\<lparr>is_open := True\<rparr>]\<rparr>"
    from True have "live_conn c ?t \<and> is_open (conns ?t ! c)"
      by (simp add: live_conn_def live_peer_def)
    then have "dial_succeeded ?t"
      unfolding dial_succeeded_iff by blast
    then show ?thesis
      using True by (simp add: HostOpen dial_succeeded_requestSync)
  next
    case False
    then show ?thesis by (simp add: HostOpen)
  qed
qed (simp_all add: all_sent_def clientCallback_def split: option.split prod.split)

lemma fire_keeps_open:
  "dial_succeeded t \<Longrightarrow> dial_succeeded (fire e t)"
proof (cases e)
  case (PeerOpen p)
  assume "dial_succeeded t"
  then obtain c where c: "live_conn c t" "is_open (conns t ! c)"
    unfolding dial_succeeded_iff by blast
  show ?thesis
    unfolding dial_succeeded_iff
    by (rule exI [of _ c]) (use c in \<open>simp add: PeerOpen live_conn_def live_peer_def nth_append split: option.split prod.split\<close>)
next
  case (HostOpen d)
  assume "dial_succeeded t"
  then obtain c where c: "live_conn c t" "is_open (conns t ! c)"
    unfolding dial_succeeded_iff by blast
  let ?t = "t\<lparr>conns := (conns t)[d := (conns t ! d)\<lparr>is_open := True\<rparr>]\<rparr>"
  from c have "live_conn c ?t \<and> is_open (conns ?t ! c)"
    by (cases "c = d") (simp_all add: live_conn_def live_peer_def)
  then have "dial_succeeded ?t"
    unfolding dial_succeeded_iff by blast
  with \<open>dial_succeeded t\<close> show ?thesis
    by (simp add: HostOpen dial_succeeded_requestSync)
qed (simp_all add: dial_succeeded_iff live_conn_def live_peer_def clientCallback_def split: option.split prod.split)

lemma run_sent_or_open:
  "all_sent t = base \<or> dial_succeeded t \<Longrightarrow>
   all_sent (run es t) = base \<or> dial_succeeded (run es t)"
proof (induction es arbitrary: t)
  case Nil
  then show ?case by simp
next
  case (Cons e es)
  have "all_sent (fire e t) = base \<or> dial_succeeded (fire e t)"
    using Cons.prems fire_sent_or_open [of e t] fire_keeps_open [of t e] by auto
  then show ?case
    using Cons.IH by simp
qed

lemma isConnected_emit_call [simp]: "isConnected (emit_call e a t) = isConnected t"
  by (cases e) simp_all

lemma isConnected_fire: "isConnected (fire e t) = isConnected t"
  by (cases e) (simp_all add: requestSync_def clientCallback_def split: option.split prod.split)

lemma isConnected_run: "isConnected (run es t) = isConnected t"
  by (induction es arbitrary: t) (simp_all add: isConnected_fire)

lemma client_connect_state:
  assumes "\<not> isHost t"
  shows "connect t =
    t\<lparr>peers := peers t @ [\<lparr>peer_id = None, options = peerJSOptions t, destroyed = False,
                            on_connection = None, on_open = Some (namespacedPeerID t, playerID t)\<rparr>],
      peer := Some (length (peers t)), isConnected := True\<rparr>"
  using assms by (simp add: connect_def Let_def setConnectionStatus_def new_Peer_def)

lemma client_dial:
  assumes "\<not> isHost t"
  shows "fire (PeerOpen (length (peers t))) (connect t) =
    (connect t)\<lparr>conns := conns t @
        [\<lparr>conn_peer = length (peers t), dial_id = namespacedPeerID t, conn_metadata = playerID t,
          is_open = False, outbox = []\<rparr>],
      emit := Some (HostSend (length (conns t)))\<rparr>"
  by (simp add: client_connect_state [OF assms] live_peer_def)

lemma client_dial_opened:
  assumes "\<not> isHost t"
  shows "run [PeerOpen (length (peers t)), HostOpen (length (conns t))] (connect t) =
    (connect t)\<lparr>conns := conns t @
        [\<lparr>conn_peer = length (peers t), dial_id = namespacedPeerID t, conn_metadata = playerID t,
          is_open = True, outbox = [sync_action t]\<rparr>],
      emit := Some (HostSend (length (conns t)))\<rparr>"
  unfolding run.simps client_dial [OF assms]
  by (simp add: client_connect_state [OF assms] live_conn_def live_peer_def requestSync_def
      sync_action_def)

text \<open>
  C2 as stated fails. A client that has just run \<^verbatim>\<open>connect\<close> has the connection status
  true although it has not dialled yet, and it still has it when its peer has opened and the
  dial is under way, with no dialled connection open.
\<close>

theorem connected_before_dial_counterexample:
  "\<not> isHost client_T \<and>
   isConnected (connect client_T) \<and> conns (connect client_T) = [] \<and>
   \<not> dial_succeeded (connect client_T) \<and>
   isConnected (fire (PeerOpen 0) (connect client_T)) \<and>
   \<not> dial_succeeded (fire (PeerOpen 0) (connect client_T))"
  by (simp add: transport_examples Let_def)

text \<open>
  C2, amended: on a client \<^verbatim>\<open>connect\<close> sets the connection status to true at once, without
  dialling, and the status stays true whatever events follow. As long as no dialled
  connection has opened, the events hand no action to any connection, so no \<^verbatim>\<open>sync\<close>
  action is issued before the dial has succeeded; when the peer has opened and the dialled
  connection has opened, the connection to the host's name has been handed exactly the
  \<^verbatim>\<open>sync\<close> action with the transport's parameters.
\<close>

theorem client_syncs_when_dial_succeeds:
  assumes "\<not> isHost t"
  shows "isConnected (connect t) \<and> conns (connect t) = conns t \<and>
         (\<forall>es. isConnected (run es (connect t))) \<and>
         (\<forall>es. \<not> dial_succeeded (run es (connect t)) \<longrightarrow>
               all_sent (run es (connect t)) = all_sent t) \<and>
         dial_succeeded (run [PeerOpen (length (peers t)), HostOpen (length (conns t))] (connect t)) \<and>
         dial_id (conns (run [PeerOpen (length (peers t)), HostOpen (length (conns t))] (connect t))
                  ! length (conns t)) = namespacedPeerID t \<and>
         outbox (conns (run [PeerOpen (length (peers t)), HostOpen (length (conns t))] (connect t))
                  ! length (conns t)) = [sync_action t]"
proof -
  let ?p = "length (peers t)" and ?c = "length (conns t)"
  have st: "isConnected (connect t)" "conns (connect t) = conns t"
    by (simp_all add: client_connect_state [OF assms])
  have always: "isConnected (run es (connect t))" for es
    by (simp add: isConnected_run st)
  have before: "all_sent (run es (connect t)) = all_sent t" if "\<not> dial_succeeded (run es (connect t))" for es
    using run_sent_or_open [of "connect t" "all_sent t" es] that by (simp add: all_sent_connect)
  let ?t = "run [PeerOpen ?p, HostOpen ?c] (connect t)"
  have "live_conn ?c ?t \<and> is_open (conns ?t ! ?c)"
    unfolding client_dial_opened [OF assms]
    by (simp add: client_connect_state [OF assms] live_conn_def live_peer_def)
  then have opened: "dial_succeeded ?t"
    unfolding dial_succeeded_iff by blast
  have sync: "dial_id (conns ?t ! ?c) = namespacedPeerID t" "outbox (conns ?t ! ?c) = [sync_action t]"
    unfolding client_dial_opened [OF assms] by simp_all
  from st always before opened sync show ?thesis by blast
qed

theorem client_syncs_when_dial_succeeds_witness:
  "\<not> isHost client_T \<and>
   isConnected (connect client_T) \<and>
   \<not> dial_succeeded (run [PeerOpen 0] (connect client_T)) \<and>
   isConnected (run [PeerOpen 0] (connect client_T)) \<and>
   all_sent (run [PeerOpen 0] (connect client_T)) = [] \<and>
   dial_succeeded (run [PeerOpen 0, HostOpen 0] (connect client_T)) \<and>
   dial_id (conns (run [PeerOpen 0, HostOpen 0] (connect client_T)) ! 0) =
     Some ''boardgameio-tic-tac-toe-matchid-M1'' \<and>
   outbox (conns (run [PeerOpen 0, HostOpen 0] (connect client_T)) ! 0) =
     [\<lparr>type = ''sync'', args = [JStr ''M1'', JStr ''P1'', JUndefined, JNum 2]\<rparr>]"
proof -
  have c: "\<not> isHost client_T" "length (peers client_T) = 0" "length (conns client_T) = 0"
    "all_sent client_T = []" "namespacedPeerID client_T = Some ''boardgameio-tic-tac-toe-matchid-M1''"
    "sync_action client_T = \<lparr>type = ''sync'', args = [JStr ''M1'', JStr ''P1'', JUndefined, JNum 2]\<rparr>"
    by (simp_all add: client_T_def new_P2PTransport_def all_sent_def namespacedPeerID_def
        sync_action_def js_of_credentials_def)
  have n: "\<not> dial_succeeded (run [PeerOpen 0] (connect client_T))"
    by (simp add: transport_examples Let_def)
  note inst = client_syncs_when_dial_succeeds [OF c(1), unfolded c(2-6)]
  from inst n c(1) show ?thesis
    by blast
qed

text \<open>
  C9: \<^verbatim>\<open>disconnect\<close> twice gives the state that \<^verbatim>\<open>disconnect\<close> once gives, from any
  state: the peer is \<^verbatim>\<open>null\<close> and the connection status is false, and the second call
  finds no peer to destroy.
\<close>

theorem disconnect_twice:
  "disconnect (disconnect t) = disconnect t \<and> peer (disconnect t) = None \<and>
   \<not> isConnected (disconnect t)"
  by (simp add: disconnect_def setConnectionStatus_def split: option.split)

theorem disconnect_twice_witness:
  "isConnected (connect host_T) \<and> peer (connect host_T) = Some 0 \<and>
   disconnect (disconnect (connect host_T)) = disconnect (connect host_T) \<and>
   peer (disconnect (connect host_T)) = None \<and>
   \<not> isConnected (disconnect (connect host_T)) \<and>
   disconnect (disconnect client_T) = disconnect client_T \<and>
   peer (disconnect client_T) = None \<and> \<not> isConnected (disconnect client_T)"
proof -
  have "isConnected (connect host_T)" "peer (connect host_T) = Some 0"
    by (simp_all add: transport_examples Let_def)
  with disconnect_twice [of "connect host_T"] disconnect_twice [of client_T]
  show ?thesis by blast
qed

text \<open>
  C5: while \<^verbatim>\<open>this.emit\<close> is not set, \<^verbatim>\<open>requestSync\<close>, \<^verbatim>\<open>sendAction\<close> and
  \<^verbatim>\<open>sendChatMessage\<close> return and leave the whole state as it was: no host processes the
  action, no connection is handed it, and nothing is kept for later.
\<close>

theorem unsent_before_emit:
  assumes "emit t = None"
  shows "requestSync t = t \<and> sendAction state action t = t \<and> sendChatMessage mid chatMessage t = t"
  using assms by (simp add: requestSync_def sendAction_def sendChatMessage_def)

theorem unsent_before_emit_witness:
  "emit (connect client_T) = None \<and>
   requestSync (connect client_T) = connect client_T \<and>
   sendAction \<lparr>stateID = 3, G = 0\<rparr> 5 (connect client_T) = connect client_T \<and>
   sendChatMessage ''M1'' 6 (connect client_T) = connect client_T"
proof -
  have e: "emit (connect client_T) = None"
    by (simp add: transport_examples)
  from unsent_before_emit [OF e] e show ?thesis by blast
qed

text \<open>
  C6: for a match identifier that is not empty, the name computed by the transport is
  \<^verbatim>\<open>boardgameio-\<close>, the game name, \<^verbatim>\<open>-matchid-\<close> and the match identifier. A host creates
  its peer under this name; a client creates its peer without a name and, when the peer has
  opened, dials this name.
\<close>

theorem endpoint_name:
  assumes "P2PTransport.matchID t \<noteq> ''''"
  shows "namespacedPeerID t = Some (''boardgameio-'' @ gameName t @ ''-matchid-'' @ P2PTransport.matchID t) \<and>
         (isHost t \<longrightarrow>
            peer (connect t) = Some (length (peers t)) \<and>
            peer_id (peers (connect t) ! length (peers t)) = namespacedPeerID t) \<and>
         (\<not> isHost t \<longrightarrow>
            peer (connect t) = Some (length (peers t)) \<and>
            peer_id (peers (connect t) ! length (peers t)) = None \<and>
            emit (fire (PeerOpen (length (peers t))) (connect t)) = Some (HostSend (length (conns t))) \<and>
            dial_id (conns (fire (PeerOpen (length (peers t))) (connect t)) ! length (conns t)) =
              namespacedPeerID t)"
  using assms
  by (simp add: transport_defs Let_def nth_append split: option.split)

theorem endpoint_name_witness:
  "P2PTransport.matchID host_T \<noteq> '''' \<and> isHost host_T \<and>
   P2PTransport.matchID client_T \<noteq> '''' \<and> \<not> isHost client_T \<and>
   namespacedPeerID host_T = Some ''boardgameio-tic-tac-toe-matchid-M1'' \<and>
   peer (connect host_T) = Some 0 \<and>
   peer_id (peers (connect host_T) ! 0) = Some ''boardgameio-tic-tac-toe-matchid-M1'' \<and>
   dial_id (conns (fire (PeerOpen 0) (connect client_T)) ! 0) =
     Some ''boardgameio-tic-tac-toe-matchid-M1''"
proof -
  have h: "P2PTransport.matchID host_T \<noteq> ''''" "isHost host_T" "length (peers host_T) = 0"
    "gameName host_T = ''tic-tac-toe''" "P2PTransport.matchID host_T = ''M1''"
    by (simp_all add: host_T_def new_P2PTransport_def)
  have c: "P2PTransport.matchID client_T \<noteq> ''''" "\<not> isHost client_T" "length (peers client_T) = 0"
    "length (conns client_T) = 0" "gameName client_T = ''tic-tac-toe''"
    "P2PTransport.matchID client_T = ''M1''"
    by (simp_all add: client_T_def new_P2PTransport_def)
  from endpoint_name [OF h(1)] endpoint_name [OF c(1)] h c show ?thesis
    by simp
qed

lemma reconnected_connect: "reconnected t (connect t)"
proof (cases "isHost t")
  case True
  then show ?thesis
    by (simp add: reconnected_def transport_defs Let_def nth_append new_P2PHost_def
        registerClient_def call_master_def processAction_def sync_action_def map_keys_def)
next
  case False
  have "live_peer (length (peers t)) (connect t)"
    by (simp add: client_connect_state [OF False] live_peer_def)
  moreover have "outbox (conns (run [PeerOpen (length (peers t))] (connect t)) ! length (conns t)) = []"
    "dial_id (conns (run [PeerOpen (length (peers t))] (connect t)) ! length (conns t)) = namespacedPeerID t"
    unfolding run.simps client_dial [OF False] by simp_all
  moreover have "outbox (conns (run [PeerOpen (length (peers t)), HostOpen (length (conns t))] (connect t))
      ! length (conns t)) = [sync_action t]"
    unfolding client_dial_opened [OF False] by simp
  moreover have "isConnected (connect t)" "peer (connect t) = Some (length (peers t))"
    "P2PTransport.matchID (connect t) = P2PTransport.matchID t" "playerID (connect t) = playerID t"
    "credentials (connect t) = credentials t"
    "on_open (peers (connect t) ! length (peers t)) = Some (namespacedPeerID t, playerID t)"
    by (simp_all add: client_connect_state [OF False])
  moreover note all_sent_connect [of t]
  ultimately show ?thesis
    unfolding reconnected_def Let_def if_not_P [OF False] by blast
qed

lemma disconnect_keeps:
  "length (peers (disconnect t)) = length (peers t)" "hosts (disconnect t) = hosts t"
  "conns (disconnect t) = conns t" "P2PTransport.matchID (disconnect t) = P2PTransport.matchID t"
  "playerID (disconnect t) = playerID t" "credentials (disconnect t) = credentials t"
  "isHost (disconnect t) = isHost t" "gameName (disconnect t) = gameName t"
  "numPlayers (disconnect t) = numPlayers t"
  by (simp_all add: disconnect_def setConnectionStatus_def split: option.split)

lemma disconnect_keeps_derived:
  "namespacedPeerID (disconnect t) = namespacedPeerID t"
  "sync_action (disconnect t) = sync_action t"
  "all_sent (disconnect t) = all_sent t"
  by (simp_all only: namespacedPeerID_def sync_action_def all_sent_def disconnect_keeps)

lemma reconnected_after_disconnect: "reconnected (disconnect t) t' = reconnected t t'"
  by (simp only: reconnected_def disconnect_keeps disconnect_keeps_derived)

lemma reconnected_reset: "reconnected t (resetAndReconnect t)"
  using reconnected_connect [of "disconnect t"]
  by (simp add: resetAndReconnect_def reconnected_after_disconnect)

text \<open>
  C7 as stated fails. On a client \<^verbatim>\<open>updateMatchID\<close> returns with the new match stored and
  the status connected, and no \<^verbatim>\<open>sync\<close> action has been issued; on a client whose dial
  had succeeded before, the only \<^verbatim>\<open>sync\<close> action issued is still the one of the first
  connection, which carries the old match.
\<close>

theorem update_without_sync_counterexample:
  "\<not> isHost client_T \<and>
   isConnected (updateMatchID ''M2'' (connect client_T)) \<and>
   P2PTransport.matchID (updateMatchID ''M2'' (connect client_T)) = ''M2'' \<and>
   all_sent (updateMatchID ''M2'' (connect client_T)) = [] \<and>
   hosts (updateMatchID ''M2'' (connect client_T)) = [] \<and>
   all_sent (run [PeerOpen 0, HostOpen 0] (connect client_T)) =
     [\<lparr>type = ''sync'', args = [JStr ''M1'', JStr ''P1'', JUndefined, JNum 2]\<rparr>] \<and>
   all_sent (updateMatchID ''M2'' (run [PeerOpen 0, HostOpen 0] (connect client_T))) =
     [\<lparr>type = ''sync'', args = [JStr ''M1'', JStr ''P1'', JUndefined, JNum 2]\<rparr>]"
  by (simp add: transport_examples Let_def)

text \<open>
  C7, amended: each of \<^verbatim>\<open>updateMatchID\<close>, \<^verbatim>\<open>updatePlayerID\<close> and \<^verbatim>\<open>updateCredentials\<close>
  stores the new parameter, then runs \<^verbatim>\<open>disconnect\<close>, then \<^verbatim>\<open>connect\<close>. Afterwards the
  status is connected and the new parameter is in use: a host listens under the name
  computed from the new parameters and has issued a \<^verbatim>\<open>sync\<close> action that carries them to
  its new \<^verbatim>\<open>P2PHost\<close>; a client waits to dial with the new parameters, has issued nothing
  yet, and issues the \<^verbatim>\<open>sync\<close> action that carries them when the dialled connection opens.
\<close>

theorem update_reconnects:
  "updateMatchID i t = connect (disconnect (t\<lparr>P2PTransport.matchID := i\<rparr>)) \<and>
   reconnected (t\<lparr>P2PTransport.matchID := i\<rparr>) (updateMatchID i t) \<and>
   updatePlayerID i t = connect (disconnect (t\<lparr>playerID := i\<rparr>)) \<and>
   reconnected (t\<lparr>playerID := i\<rparr>) (updatePlayerID i t) \<and>
   updateCredentials c t = connect (disconnect (t\<lparr>credentials := c\<rparr>)) \<and>
   reconnected (t\<lparr>credentials := c\<rparr>) (updateCredentials c t)"
  unfolding updateMatchID_def updatePlayerID_def updateCredentials_def
  using reconnected_reset [of "t\<lparr>P2PTransport.matchID := i\<rparr>"]
    reconnected_reset [of "t\<lparr>playerID := i\<rparr>"] reconnected_reset [of "t\<lparr>credentials := c\<rparr>"]
  by (simp only: resetAndReconnect_def simp_thms)

theorem update_reconnects_witness:
  "isHost (connect host_T) \<and>
   isConnected (updateMatchID ''M2'' (connect host_T)) \<and>
   peer_id (peers (updateMatchID ''M2'' (connect host_T)) ! 1) =
     Some ''boardgameio-tic-tac-toe-matchid-M2'' \<and>
   calls (master (hosts (updateMatchID ''M2'' (connect host_T)) ! 1)) =
     [OnConnectionChange [JStr ''M2'', JStr ''P0'', JUndefined, JBool True],
      OnSync [JStr ''M2'', JStr ''P0'', JUndefined, JNum 2]] \<and>
   calls (master (hosts (updateCredentials (Some ''secret'') (connect host_T)) ! 1)) =
     [OnConnectionChange [JStr ''M1'', JStr ''P0'', JUndefined, JBool True],
      OnSync [JStr ''M1'', JStr ''P0'', JStr ''secret'', JNum 2]] \<and>
   \<not> isHost (connect client_T) \<and>
   isConnected (updatePlayerID ''P2'' (connect client_T)) \<and>
   on_open (peers (updatePlayerID ''P2'' (connect client_T)) ! 1) =
     Some (Some ''boardgameio-tic-tac-toe-matchid-M1'', ''P2'') \<and>
   all_sent (updatePlayerID ''P2'' (connect client_T)) = [] \<and>
   outbox (conns (run [PeerOpen 1, HostOpen 0] (updatePlayerID ''P2'' (connect client_T))) ! 0) =
     [\<lparr>type = ''sync'', args = [JStr ''M1'', JStr ''P2'', JUndefined, JNum 2]\<rparr>]"
proof -
  let ?h = "connect host_T" and ?c = "connect client_T"
  have h: "isHost (?h\<lparr>P2PTransport.matchID := ''M2''\<rparr>)" "isHost (?h\<lparr>credentials := Some ''secret''\<rparr>)"
    "isHost ?h"
    "length (peers (?h\<lparr>P2PTransport.matchID := ''M2''\<rparr>)) = 1"
    "length (hosts (?h\<lparr>P2PTransport.matchID := ''M2''\<rparr>)) = 1"
    "length (hosts (?h\<lparr>credentials := Some ''secret''\<rparr>)) = 1"
    "namespacedPeerID (?h\<lparr>P2PTransport.matchID := ''M2''\<rparr>) = Some ''boardgameio-tic-tac-toe-matchid-M2''"
    "P2PTransport.matchID (?h\<lparr>P2PTransport.matchID := ''M2''\<rparr>) = ''M2''"
    "playerID (?h\<lparr>P2PTransport.matchID := ''M2''\<rparr>) = ''P0''"
    "args (sync_action (?h\<lparr>P2PTransport.matchID := ''M2''\<rparr>)) = [JStr ''M2'', JStr ''P0'', JUndefined, JNum 2]"
    "P2PTransport.matchID (?h\<lparr>credentials := Some ''secret''\<rparr>) = ''M1''"
    "playerID (?h\<lparr>credentials := Some ''secret''\<rparr>) = ''P0''"
    "args (sync_action (?h\<lparr>credentials := Some ''secret''\<rparr>)) = [JStr ''M1'', JStr ''P0'', JStr ''secret'', JNum 2]"
    by (simp_all add: transport_examples Let_def)
  have c: "\<not> isHost (?c\<lparr>playerID := ''P2''\<rparr>)" "\<not> isHost ?c"
    "length (peers (?c\<lparr>playerID := ''P2''\<rparr>)) = 1"
    "length (conns (?c\<lparr>playerID := ''P2''\<rparr>)) = 0"
    "namespacedPeerID (?c\<lparr>playerID := ''P2''\<rparr>) = Some ''boardgameio-tic-tac-toe-matchid-M1''"
    "playerID (?c\<lparr>playerID := ''P2''\<rparr>) = ''P2''"
    "all_sent (?c\<lparr>playerID := ''P2''\<rparr>) = []"
    "sync_action (?c\<lparr>playerID := ''P2''\<rparr>) = \<lparr>type = ''sync'', args = [JStr ''M1'', JStr ''P2'', JUndefined, JNum 2]\<rparr>"
    by (simp_all add: transport_examples Let_def)
  note hm = update_reconnects [of "''M2''" ?h None, THEN conjunct2, THEN conjunct1,
      unfolded reconnected_def Let_def if_P [OF h(1)] h]
  note hc = update_reconnects [of "''M2''" ?h "Some ''secret''", THEN conjunct2, THEN conjunct2,
      THEN conjunct2, THEN conjunct2, THEN conjunct2,
      unfolded reconnected_def Let_def if_P [OF h(2)] h]
  note cp = update_reconnects [of "''P2''" ?c None, THEN conjunct2, THEN conjunct2, THEN conjunct2,
      THEN conjunct1, unfolded reconnected_def Let_def if_not_P [OF c(1)] c]
  from hm hc cp h(3) c(2) show ?thesis by blast
qed

end
